theory Spec2Isabelle
  imports Main
begin

chapter \<open>The launcher module\<close>

section \<open>Python values, errors and the collaborators of the launcher\<close>

text \<open>
  The module \<^verbatim>\<open>llms/mlx_lm/launch_distributed.py\<close> is embedded function by function.
  Text is modelled as \<^typ>\<open>string\<close>, a character standing for the code point of its
  number (the code points below 256). Where the behaviour of the code depends on whether
  a value is a \<^verbatim>\<open>str\<close> or a \<^verbatim>\<open>bytes\<close> object, values carry that tag.
\<close>

datatype pyval = Str string | Bytes string

datatype error =
    ValueError string
  | TypeError string
  | NameError string
  | IndexError string
  | FileNotFoundError string

text \<open>
  \<^verbatim>\<open>subprocess.run\<close> returns a completed process or, when a timeout is given, raises
  \<^verbatim>\<open>TimeoutExpired\<close>.
\<close>

record completed_process =
  returncode :: int
  stdout :: string

datatype run_outcome = Returned completed_process | TimeoutExpired

text \<open>
  The namespace that \<^verbatim>\<open>build_parser().parse_args()\<close> hands to \<^verbatim>\<open>main\<close>, one field
  for each argument the parser declares: \<^verbatim>\<open>--hosts\<close> and \<^verbatim>\<open>--hostfile\<close> (absent:
  \<^verbatim>\<open>None\<close>), \<^verbatim>\<open>--env\<close> (appended, default the empty list),
  \<^verbatim>\<open>--connections-per-peer\<close> (an integer, default 4), the flags \<^verbatim>\<open>--skip-ssh-check\<close>
  and \<^verbatim>\<open>--skip-python-path\<close>, and the positional \<^verbatim>\<open>cmd\<close> (one token or more).
\<close>

record namespace =
  hosts :: "string option"
  hostfile :: "string option"
  env :: "string list"
  connections_per_peer :: int
  skip_ssh_check :: bool
  skip_python_path :: bool
  cmd :: "string list"

text \<open>
  What the operating system answers: the outcome of \<^verbatim>\<open>ssh h ls\<close> under the one
  second timeout, the outcome of \<^verbatim>\<open>which mpirun\<close>, the value of
  \<^verbatim>\<open>sys.executable\<close>, the name \<^verbatim>\<open>NamedTemporaryFile\<close> picks, and whether
  \<^verbatim>\<open>execv\<close> can replace the process image with a given path.
\<close>

record system =
  run_ssh :: "string \<Rightarrow> run_outcome"
  run_which :: completed_process
  sys_executable :: string
  tmp_name :: string
  execv_ok :: "pyval \<Rightarrow> bool"

datatype event = EvWhich | EvCreate string | EvWrite string string | EvDelete string

record world =
  files :: "string \<Rightarrow> string option"
  log :: "event list"

datatype exec_call = Execv pyval "pyval list"

section \<open>String primitives of Python used by the module\<close>

definition squote :: "string \<Rightarrow> string" where
  "squote s = [CHR 0x27] @ s @ [CHR 0x27]"

text \<open>\<^verbatim>\<open>s.split(",")\<close>: always at least one piece, empty pieces kept.\<close>

fun split_acc :: "char \<Rightarrow> string \<Rightarrow> string \<Rightarrow> string list" where
  "split_acc sep acc [] = [rev acc]"
| "split_acc sep acc (c # cs) =
     (if c = sep then rev acc # split_acc sep [] cs else split_acc sep (c # acc) cs)"

definition split :: "string \<Rightarrow> char \<Rightarrow> string list" where
  "split s sep = split_acc sep [] s"

text \<open>
  Reading a text file opened with \<^verbatim>\<open>open(path, "r")\<close>: universal newlines turn
  \<^verbatim>\<open>\r\n\<close> and a lone \<^verbatim>\<open>\r\<close> into \<^verbatim>\<open>\n\<close>; iteration yields each line with its
  terminator, and a last unterminated line when it is not empty.
\<close>

fun universal_newlines :: "string \<Rightarrow> string" where
  "universal_newlines [] = []"
| "universal_newlines [c] = (if c = CHR 0x0D then [CHR 0x0A] else [c])"
| "universal_newlines (c # d # cs) =
     (if c = CHR 0x0D then
        (if d = CHR 0x0A then CHR 0x0A # universal_newlines cs
         else CHR 0x0A # universal_newlines (d # cs))
      else c # universal_newlines (d # cs))"

fun lines_acc :: "string \<Rightarrow> string \<Rightarrow> string list" where
  "lines_acc acc [] = (if acc = [] then [] else [rev acc])"
| "lines_acc acc (c # cs) =
     (if c = CHR 0x0A then rev (c # acc) # lines_acc [] cs else lines_acc (c # acc) cs)"

definition file_lines :: "string \<Rightarrow> string list" where
  "file_lines content = lines_acc [] (universal_newlines content)"

text \<open>
  The whitespace that \<^verbatim>\<open>str.strip()\<close> removes, among the code points below 256: TAB, LF,
  VT, FF, CR (9 to 13), FS, GS, RS, US and the blank (28 to 32), NEL (0x85) and the
  no-break space (0xA0).
\<close>

definition is_space :: "char \<Rightarrow> bool" where
  "is_space c =
     (let n = (of_char c :: nat)
      in (9 \<le> n \<and> n \<le> 13) \<or> (28 \<le> n \<and> n \<le> 32) \<or> n = 0x85 \<or> n = 0xA0)"

definition strip :: "string \<Rightarrow> string" where
  "strip s = rev (dropWhile is_space (rev (dropWhile is_space s)))"

text \<open>\<^verbatim>\<open>str(n)\<close> for an integer: decimal digits, a minus sign when negative.\<close>

fun str_nat :: "nat \<Rightarrow> string" where
  "str_nat n = (if n < 10 then [char_of (48 + n)] else str_nat (n div 10) @ [char_of (48 + n mod 10)])"

declare str_nat.simps [simp del]

definition str_int :: "int \<Rightarrow> string" where
  "str_int i = (if i < 0 then CHR ''-'' # str_nat (nat (- i)) else str_nat (nat i))"

text \<open>
  \<^verbatim>\<open>''.join(xs)\<close>: every item has to be a \<^verbatim>\<open>str\<close>; a \<^verbatim>\<open>bytes\<close> item raises
  \<^verbatim>\<open>TypeError\<close>.
\<close>

definition join_bytes_error :: "nat \<Rightarrow> error" where
  "join_bytes_error i =
     TypeError (''sequence item '' @ str_nat i @ '': expected str instance, bytes found'')"

fun join_from :: "nat \<Rightarrow> pyval list \<Rightarrow> error + string" where
  "join_from i [] = Inr []"
| "join_from i (Str s # xs) =
     (case join_from (Suc i) xs of Inl e \<Rightarrow> Inl e | Inr r \<Rightarrow> Inr (s @ r))"
| "join_from i (Bytes b # xs) = Inl (join_bytes_error i)"

definition join :: "pyval list \<Rightarrow> error + string" where
  "join xs = join_from 0 xs"

section \<open>parse_hosts (lines 66 to 73)\<close>

text \<open>
  \<^verbatim>\<open>
  def parse_hosts(args):
      if args.hosts is not None:
          return args.hosts.split(",")
      elif args.hostfile is not None:
          with open(args.hostfile, "r") as f:
              return [l.strip() for l in f]
      else:
          raise ValueError("Either --hosts or --hostfile need to be provided")
  \<close>
  Opening a path that names no file raises \<^verbatim>\<open>FileNotFoundError\<close>.
\<close>

definition parse_hosts :: "(string \<Rightarrow> string option) \<Rightarrow> namespace \<Rightarrow> error + string list" where
  "parse_hosts fs args =
     (case hosts args of
        Some s \<Rightarrow> Inr (split s CHR '','')
      | None \<Rightarrow>
          (case hostfile args of
             Some p \<Rightarrow>
               (case fs p of
                  None \<Rightarrow> Inl (FileNotFoundError p)
                | Some content \<Rightarrow> Inr (map strip (file_lines content)))
           | None \<Rightarrow> Inl (ValueError ''Either --hosts or --hostfile need to be provided'')))"

section \<open>check_connection (lines 76 to 87)\<close>

text \<open>
  \<^verbatim>\<open>
  def check_connection(hosts):
      for h in hosts:
          success = True
          try:
              ret = run(["ssh", h, "ls"], stdout=DEVNULL, stderr=DEVNULL, timeout=1)
          except TimeoutExpired:
              success = False
          if not success or ret.returncode != 0:
              raise ValueError(
                  f"Failed to connect to '{h}' via ssh. "
                  f"Make sure that '{h}' is accessible without a password."
              )
  \<close>
  After a timeout \<^verbatim>\<open>not success\<close> holds and \<^verbatim>\<open>ret.returncode\<close> is not evaluated.
\<close>

definition connect_error :: "string \<Rightarrow> error" where
  "connect_error h =
     ValueError (''Failed to connect to '' @ squote h @ '' via ssh. '' @
                 ''Make sure that '' @ squote h @ '' is accessible without a password.'')"

fun check_connection :: "(string \<Rightarrow> run_outcome) \<Rightarrow> string list \<Rightarrow> error + unit" where
  "check_connection run_ssh_ls [] = Inr ()"
| "check_connection run_ssh_ls (h # hs) =
     (case run_ssh_ls h of
        TimeoutExpired \<Rightarrow> Inl (connect_error h)
      | Returned ret \<Rightarrow>
          (if returncode ret \<noteq> 0 then Inl (connect_error h)
           else check_connection run_ssh_ls hs))"

section \<open>get_mpirun (lines 90 to 96)\<close>

text \<open>
  \<^verbatim>\<open>
  def get_mpirun():
      ret = run(["which", "mpirun"], capture_output=True)
      if ret.returncode != 0:
          raise ValueError(
              "Couldn't find 'mpirun' in the path. " "Make sure you have MPI installed."
          )
      return ret.stdout
  \<close>
  Without \<^verbatim>\<open>text=True\<close> the captured output is a \<^verbatim>\<open>bytes\<close> object.
\<close>

definition mpirun_error :: error where
  "mpirun_error =
     ValueError (''Couldn'' @ [CHR 0x27] @ ''t find '' @ squote ''mpirun'' @ '' in the path. '' @
                 ''Make sure you have MPI installed.'')"

definition get_mpirun :: "system \<Rightarrow> world \<Rightarrow> (error + pyval) \<times> world" where
  "get_mpirun sys w =
     (let ret = run_which sys; w1 = w\<lparr>log := log w @ [EvWhich]\<rparr> in
      if returncode ret \<noteq> 0 then (Inl mpirun_error, w1)
      else (Inr (Bytes (stdout ret)), w1))"

section \<open>main (lines 99 to 136)\<close>

text \<open>
  \<^verbatim>\<open>
  def main():
      parser = build_parser()
      args = parser.parse_args()

      hosts = parse_hosts(args)

      if not args.skip_ssh_check:
          check_connection(hosts)

      # Get mpirun and python executables
      cmd = args.cmd
      mpirun = get_mpirun()
      executable = cmd.pop(0)
      if executable == "python":
          executable = sys.executable
  \<close>
  The first part of \<^verbatim>\<open>main\<close>, up to the \<^verbatim>\<open>with\<close> statement, computes the local
  variables \<^verbatim>\<open>hosts\<close>, \<^verbatim>\<open>mpirun\<close>, \<^verbatim>\<open>executable\<close> and \<^verbatim>\<open>cmd\<close>.
\<close>

type_synonym locals = "string list \<times> pyval \<times> string \<times> string list"

definition main_setup :: "system \<Rightarrow> namespace \<Rightarrow> world \<Rightarrow> (error + locals) \<times> world" where
  "main_setup sys args w =
     (case parse_hosts (files w) args of
        Inl e \<Rightarrow> (Inl e, w)
      | Inr hs \<Rightarrow>
          (case (if \<not> skip_ssh_check args then check_connection (run_ssh sys) hs else Inr ()) of
             Inl e \<Rightarrow> (Inl e, w)
           | Inr u \<Rightarrow>
               (case get_mpirun sys w of
                  (Inl e, w1) \<Rightarrow> (Inl e, w1)
                | (Inr mpirun, w1) \<Rightarrow>
                    (case cmd args of
                       [] \<Rightarrow> (Inl (IndexError ''pop from empty list''), w1)
                     | executable # rest \<Rightarrow>
                         (Inr (hs, mpirun,
                               (if executable = ''python'' then sys_executable sys else executable),
                               rest), w1)))))"

text \<open>
  \<^verbatim>\<open>
      with NamedTemporaryFile() as hostfile:
          for h in hosts:
              hostfile.write(f"{h} slots=1\n")
          hostfile.flush()
  \<close>
  \<^verbatim>\<open>NamedTemporaryFile()\<close> creates the file, in its default mode \<^verbatim>\<open>w+b\<close>: writing
  takes a \<^verbatim>\<open>bytes\<close> object and raises \<^verbatim>\<open>TypeError\<close> on a \<^verbatim>\<open>str\<close>. Leaving the
  \<^verbatim>\<open>with\<close> block, normally or by an exception, deletes the file. A successful
  \<^verbatim>\<open>execv\<close> does not leave the block: the process image is gone.
\<close>

definition tmp_create :: "string \<Rightarrow> world \<Rightarrow> world" where
  "tmp_create n w = w\<lparr>files := (files w)(n := Some []), log := log w @ [EvCreate n]\<rparr>"

definition tmp_delete :: "string \<Rightarrow> world \<Rightarrow> world" where
  "tmp_delete n w = w\<lparr>files := (files w)(n := None), log := log w @ [EvDelete n]\<rparr>"

definition bytes_required_error :: error where
  "bytes_required_error = TypeError (''a bytes-like object is required, not '' @ squote ''str'')"

definition tmp_write :: "string \<Rightarrow> pyval \<Rightarrow> world \<Rightarrow> (error + unit) \<times> world" where
  "tmp_write n v w =
     (case v of
        Str s \<Rightarrow> (Inl bytes_required_error, w)
      | Bytes b \<Rightarrow>
          (Inr (), w\<lparr>files := (files w)(n := Some ((case files w n of None \<Rightarrow> [] | Some c \<Rightarrow> c) @ b)),
                     log := log w @ [EvWrite n b]\<rparr>))"

definition host_line :: "string \<Rightarrow> string" where
  "host_line h = h @ '' slots=1\<newline>''"

fun write_hosts :: "string \<Rightarrow> string list \<Rightarrow> world \<Rightarrow> (error + unit) \<times> world" where
  "write_hosts n [] w = (Inr (), w)"
| "write_hosts n (h # hs) w =
     (case tmp_write n (Str (host_line h)) w of
        (Inl e, w1) \<Rightarrow> (Inl e, w1)
      | (Inr u, w1) \<Rightarrow> write_hosts n hs w1)"

text \<open>
  \<^verbatim>\<open>
          mpiargs = []
          for e in env:
              mpiargs.extend(("-x", e))
          mpiargs.extend(("--mca", "btl_tcp_links", str(args.connections_per_peer)))
  \<close>
  The name \<^verbatim>\<open>env\<close> is bound nowhere: it is no local of \<^verbatim>\<open>main\<close>, no global of the
  module (whose globals are the imported names and the five functions) and no builtin.
  Reading it raises \<^verbatim>\<open>NameError\<close>. The parsed entries are \<^verbatim>\<open>args.env\<close>.
\<close>

definition module_env :: "pyval list option" where
  "module_env = None"

definition env_not_defined_error :: error where
  "env_not_defined_error = NameError (''name '' @ squote ''env'' @ '' is not defined'')"

definition mpiargs_of :: "pyval list \<Rightarrow> int \<Rightarrow> pyval list" where
  "mpiargs_of es n =
     foldl (\<lambda>mpiargs e. mpiargs @ [Str ''-x'', e]) [] es @
     [Str ''--mca'', Str ''btl_tcp_links'', Str (str_int n)]"

text \<open>
  \<^verbatim>\<open>
          run_args = [
              mpirun,
              *mpiargs,
              "--hostfile",
              hostfile.name,
              "--",
              executable,
              *cmd,
          ]
          print(f"Running `{''.join(run_args)}`", flush=True)
          os.execv(run_args.pop(0), run_args)
  \<close>
  The arguments of \<^verbatim>\<open>os.execv\<close> are evaluated from left to right: \<^verbatim>\<open>run_args.pop(0)\<close>
  removes the first item of the list, and the second argument is that same list, one
  item shorter.
\<close>

definition run_args_of :: "pyval \<Rightarrow> pyval list \<Rightarrow> string \<Rightarrow> string \<Rightarrow> string list \<Rightarrow> pyval list" where
  "run_args_of mpirun mpiargs name executable rest =
     [mpirun] @ mpiargs @ [Str ''--hostfile'', Str name, Str ''--'', Str executable] @ map Str rest"

definition fsdecode :: "pyval \<Rightarrow> string" where
  "fsdecode v = (case v of Str s \<Rightarrow> s | Bytes b \<Rightarrow> b)"

definition os_execv :: "system \<Rightarrow> pyval list \<Rightarrow> error + exec_call" where
  "os_execv sys run_args =
     (case run_args of
        [] \<Rightarrow> Inl (IndexError ''pop from empty list'')
      | path # argv \<Rightarrow>
          (if argv = [] then Inl (ValueError ''execv() arg 2 must not be empty'')
           else if execv_ok sys path then Inr (Execv path argv)
           else Inl (FileNotFoundError (fsdecode path))))"

definition main_launch :: "system \<Rightarrow> namespace \<Rightarrow> locals \<Rightarrow> world \<Rightarrow> (error + exec_call) \<times> world" where
  "main_launch sys args l w =
     (case l of (hs, mpirun, executable, rest) \<Rightarrow>
        (case write_hosts (tmp_name sys) hs w of
           (Inl e, w1) \<Rightarrow> (Inl e, w1)
         | (Inr u, w1) \<Rightarrow>
             (case module_env of
                None \<Rightarrow> (Inl env_not_defined_error, w1)
              | Some es \<Rightarrow>
                  (let mpiargs = mpiargs_of es (connections_per_peer args);
                       run_args = run_args_of mpirun mpiargs (tmp_name sys) executable rest
                   in (case join run_args of
                         Inl e \<Rightarrow> (Inl e, w1)
                       | Inr shown \<Rightarrow> (os_execv sys run_args, w1))))))"

definition with_NamedTemporaryFile ::
  "system \<Rightarrow> (world \<Rightarrow> (error + exec_call) \<times> world) \<Rightarrow> world \<Rightarrow> (error + exec_call) \<times> world" where
  "with_NamedTemporaryFile sys body w =
     (case body (tmp_create (tmp_name sys) w) of
        (Inl e, w1) \<Rightarrow> (Inl e, tmp_delete (tmp_name sys) w1)
      | (Inr x, w1) \<Rightarrow> (Inr x, w1))"

definition main :: "system \<Rightarrow> namespace \<Rightarrow> world \<Rightarrow> (error + exec_call) \<times> world" where
  "main sys args w =
     (case main_setup sys args w of
        (Inl e, w1) \<Rightarrow> (Inl e, w1)
      | (Inr l, w1) \<Rightarrow> with_NamedTemporaryFile sys (main_launch sys args l) w1)"

section \<open>Predicates and sample inputs used in the statements\<close>

text \<open>A probe succeeds when \<^verbatim>\<open>ssh h ls\<close> returns exit code 0 before the timeout.\<close>

definition probe_ok :: "run_outcome \<Rightarrow> bool" where
  "probe_ok r = (case r of Returned ret \<Rightarrow> returncode ret = 0 | TimeoutExpired \<Rightarrow> False)"

definition ssh_timeout_b :: "string \<Rightarrow> run_outcome" where
  "ssh_timeout_b h =
     (if h = ''b'' then TimeoutExpired
      else Returned \<lparr>returncode = (if h = ''c'' then 1 else 0), stdout = []\<rparr>)"

definition ssh_refused_b :: "string \<Rightarrow> run_outcome" where
  "ssh_refused_b h =
     Returned \<lparr>returncode = (if h = ''b'' \<or> h = ''c'' then 255 else 0), stdout = []\<rparr>"

definition both_given :: namespace where
  "both_given = \<lparr>hosts = Some ''a,b'', hostfile = Some ''hosts.txt'', env = [],
                 connections_per_peer = 4, skip_ssh_check = False, skip_python_path = False,
                 cmd = [''python'', ''train.py'']\<rparr>"

text \<open>A line is blank when it holds nothing but whitespace, its terminator included.\<close>

definition blank :: "string \<Rightarrow> bool" where
  "blank l = list_all is_space l"

definition hostfile_only :: namespace where
  "hostfile_only = \<lparr>hosts = None, hostfile = Some ''hosts.txt'', env = [],
                    connections_per_peer = 4, skip_ssh_check = False, skip_python_path = False,
                    cmd = [''python'', ''train.py'']\<rparr>"

definition blank_line_fs :: "string \<Rightarrow> string option" where
  "blank_line_fs p = (if p = ''hosts.txt'' then Some ''h1\<newline>\<newline> h2\<newline>'' else None)"

text \<open>
  A sample system: every host answers \<^verbatim>\<open>ssh\<close>, \<^verbatim>\<open>which mpirun\<close> prints a path and a
  newline, and \<^verbatim>\<open>execv\<close> would succeed. \<open>no_mpi\<close> is the same system without a
  launcher on the search path. The disk holds one file, \<^verbatim>\<open>empty.txt\<close>, of no lines.
\<close>

definition studio :: system where
  "studio = \<lparr>run_ssh = (\<lambda>h. Returned \<lparr>returncode = 0, stdout = []\<rparr>),
             run_which = \<lparr>returncode = 0, stdout = ''/opt/homebrew/bin/mpirun\<newline>''\<rparr>,
             sys_executable = ''/usr/local/bin/python3'',
             tmp_name = ''/tmp/tmpk3v9'',
             execv_ok = (\<lambda>p. True)\<rparr>"

definition no_mpi :: system where
  "no_mpi = studio\<lparr>run_which := \<lparr>returncode = 1, stdout = []\<rparr>\<rparr>"

definition fresh_disk :: world where
  "fresh_disk = \<lparr>files = (\<lambda>p. if p = ''empty.txt'' then Some [] else None), log = []\<rparr>"

definition scenario :: namespace where
  "scenario = \<lparr>hosts = Some ''m1,m2'', hostfile = None, env = [],
               connections_per_peer = 4, skip_ssh_check = False, skip_python_path = False,
               cmd = [''python'', ''train.py'', ''--epochs'', ''3'']\<rparr>"

definition two_hosts :: namespace where
  "two_hosts = scenario\<lparr>hosts := Some ''h1,h2''\<rparr>"

definition skip_python :: namespace where
  "skip_python = scenario\<lparr>skip_python_path := True\<rparr>"

definition with_env :: namespace where
  "with_env = scenario\<lparr>env := [''MY_ENV_VAR=1'', ''OTHER=2'']\<rparr>"

definition scenario_run_args :: "pyval list" where
  "scenario_run_args =
     run_args_of (Bytes ''/opt/homebrew/bin/mpirun\<newline>'') (mpiargs_of [] 4) ''/tmp/tmpk3v9''
       ''/usr/local/bin/python3'' [''train.py'', ''--epochs'', ''3'']"

definition empty_hostfile :: namespace where
  "empty_hostfile = with_env\<lparr>hosts := None, hostfile := Some ''empty.txt''\<rparr>"

chapter \<open>Verified properties\<close>

section \<open>Reachability check\<close>

lemma connect_error_inj: "connect_error h = connect_error h' \<Longrightarrow> h = h'"
proof -
  assume eq: "connect_error h = connect_error h'"
  let ?m = "\<lambda>h. ''Failed to connect to '' @ squote h @ '' via ssh. '' @
                 ''Make sure that '' @ squote h @ '' is accessible without a password.''"
  from eq have m: "?m h = ?m h'" unfolding connect_error_def by (rule error.inject(1)[THEN iffD1])
  then have "length (?m h) = length (?m h')" by (rule arg_cong)
  then have len: "length h = length h'" by (simp add: squote_def)
  from m have "h @ (CHR 0x27 # '' via ssh. '' @ ''Make sure that '' @ squote h @ '' is accessible without a password.'')
      = h' @ (CHR 0x27 # '' via ssh. '' @ ''Make sure that '' @ squote h' @ '' is accessible without a password.'')"
    by (simp add: squote_def)
  with len show ?thesis by (metis append_eq_append_conv)
qed

lemma check_connection_dropWhile:
  "check_connection p hs =
     (case dropWhile (\<lambda>h. probe_ok (p h)) hs of [] \<Rightarrow> Inr () | h # rest \<Rightarrow> Inl (connect_error h))"
  by (induction hs) (auto simp: probe_ok_def split: run_outcome.splits)

lemma check_connection_ok_iff:
  "check_connection p hs = Inr () \<longleftrightarrow> (\<forall>h \<in> set hs. probe_ok (p h))"
  by (induction hs) (auto simp: probe_ok_def split: run_outcome.splits)

lemma check_connection_first:
  "check_connection p hs \<noteq> Inr () \<Longrightarrow>
     \<exists>i < length hs. \<not> probe_ok (p (hs ! i)) \<and> (\<forall>j < i. probe_ok (p (hs ! j))) \<and>
        check_connection p hs = Inl (connect_error (hs ! i))"
proof (induction hs)
  case Nil
  then show ?case by simp
next
  case (Cons h hs)
  show ?case
  proof (cases "probe_ok (p h)")
    case False
    then have "check_connection p (h # hs) = Inl (connect_error h)"
      by (auto simp: probe_ok_def split: run_outcome.splits)
    with False show ?thesis by (intro exI[of _ 0]) simp
  next
    case True
    then have step: "check_connection p (h # hs) = check_connection p hs"
      by (auto simp: probe_ok_def split: run_outcome.splits)
    with Cons obtain i where i: "i < length hs" "\<not> probe_ok (p (hs ! i))"
      "\<forall>j < i. probe_ok (p (hs ! j))" "check_connection p hs = Inl (connect_error (hs ! i))"
      by auto
    have "\<forall>j < Suc i. probe_ok (p ((h # hs) ! j))"
      using True i(3) by (simp add: nth_Cons split: nat.splits)
    with i step show ?thesis by (intro exI[of _ "Suc i"]) simp
  qed
qed

lemma check_connection_cong:
  "(\<forall>h \<in> set hs. probe_ok (p h) = probe_ok (q h)) \<Longrightarrow> check_connection p hs = check_connection q hs"
  by (induction hs) (auto simp: probe_ok_def split: run_outcome.splits)


text \<open>
  Claim C4. \<^verbatim>\<open>check_connection\<close> succeeds if and only if every host's probe returns exit
  code 0 within the timeout. When it fails, the error names the first host of the list
  whose probe failed, all hosts before it having succeeded, and no other host. The result
  depends only on which probes succeed: a timeout and a non-zero exit code are the same
  failure.
\<close>

theorem check_connection_first_failing_host:
  "(check_connection p hs = Inr () \<longleftrightarrow> (\<forall>h \<in> set hs. probe_ok (p h))) \<and>
   (check_connection p hs \<noteq> Inr () \<longrightarrow>
      (\<exists>i < length hs. \<not> probe_ok (p (hs ! i)) \<and> (\<forall>j < i. probe_ok (p (hs ! j))) \<and>
         check_connection p hs = Inl (connect_error (hs ! i)) \<and>
         (\<forall>h'. check_connection p hs = Inl (connect_error h') \<longrightarrow> h' = hs ! i))) \<and>
   ((\<forall>h \<in> set hs. probe_ok (p h) = probe_ok (q h)) \<longrightarrow>
      check_connection p hs = check_connection q hs)"
proof (intro conjI impI)
  show "check_connection p hs = Inr () \<longleftrightarrow> (\<forall>h \<in> set hs. probe_ok (p h))"
    by (rule check_connection_ok_iff)
next
  assume "check_connection p hs \<noteq> Inr ()"
  then obtain i where i: "i < length hs" "\<not> probe_ok (p (hs ! i))"
    "\<forall>j < i. probe_ok (p (hs ! j))" "check_connection p hs = Inl (connect_error (hs ! i))"
    using check_connection_first by blast
  have "\<forall>h'. check_connection p hs = Inl (connect_error h') \<longrightarrow> h' = hs ! i"
    using i(4) by (auto dest: connect_error_inj)
  with i show "\<exists>i < length hs. \<not> probe_ok (p (hs ! i)) \<and> (\<forall>j < i. probe_ok (p (hs ! j))) \<and>
         check_connection p hs = Inl (connect_error (hs ! i)) \<and>
         (\<forall>h'. check_connection p hs = Inl (connect_error h') \<longrightarrow> h' = hs ! i)"
    by blast
next
  assume "\<forall>h \<in> set hs. probe_ok (p h) = probe_ok (q h)"
  then show "check_connection p hs = check_connection q hs"
    by (rule check_connection_cong)
qed

theorem check_connection_first_failing_host_witness:
  "check_connection ssh_timeout_b [''a'', ''b'', ''c''] \<noteq> Inr () \<and>
   probe_ok (ssh_timeout_b ''a'') = probe_ok (ssh_refused_b ''a'') \<and>
   probe_ok (ssh_timeout_b ''b'') = probe_ok (ssh_refused_b ''b'') \<and>
   probe_ok (ssh_timeout_b ''c'') = probe_ok (ssh_refused_b ''c'') \<and>
   check_connection ssh_timeout_b [''a'', ''b'', ''c''] = Inl (connect_error ''b'') \<and>
   check_connection ssh_refused_b [''a'', ''b'', ''c''] = Inl (connect_error ''b'')"
  using check_connection_first_failing_host [of ssh_timeout_b "[''a'', ''b'', ''c'']" ssh_refused_b]
  by (simp add: ssh_timeout_b_def ssh_refused_b_def probe_ok_def)

section \<open>Host resolution\<close>

text \<open>
  Claim C3, as amended. \<^verbatim>\<open>parse_hosts\<close> raises the configuration error exactly when
  neither inline hosts nor a hostfile path is given. When inline hosts are given, with or
  without a hostfile path, it returns them split at the commas. When only a hostfile path
  is given, it returns a host list if the file exists and can be read as text, and raises
  \<^verbatim>\<open>FileNotFoundError\<close> if no such file exists.
\<close>

theorem parse_hosts_configuration_error:
  "((\<exists>msg. parse_hosts fs a = Inl (ValueError msg)) \<longleftrightarrow> hosts a = None \<and> hostfile a = None) \<and>
   (\<forall>s. hosts a = Some s \<longrightarrow> parse_hosts fs a = Inr (split s CHR '','')) \<and>
   (\<forall>p. hosts a = None \<and> hostfile a = Some p \<longrightarrow>
      (case fs p of None \<Rightarrow> parse_hosts fs a = Inl (FileNotFoundError p)
       | Some c \<Rightarrow> (\<exists>hs. parse_hosts fs a = Inr hs)))"
  by (auto simp: parse_hosts_def split: option.splits)

theorem parse_hosts_configuration_error_witness:
  "hosts both_given = Some ''a,b'' \<and> parse_hosts (\<lambda>p. None) both_given = Inr [''a'', ''b''] \<and>
   hosts (both_given\<lparr>hosts := None\<rparr>) = None \<and> hostfile (both_given\<lparr>hosts := None\<rparr>) = Some ''hosts.txt'' \<and>
   parse_hosts (\<lambda>p. None) (both_given\<lparr>hosts := None\<rparr>) = Inl (FileNotFoundError ''hosts.txt'')"
  using parse_hosts_configuration_error [of "\<lambda>p. None" both_given]
    parse_hosts_configuration_error [of "\<lambda>p. None" "both_given\<lparr>hosts := None\<rparr>"]
  by (simp add: both_given_def split_def)

text \<open>
  Claim C3 as stated fails: with both inline hosts and a hostfile path given,
  \<^verbatim>\<open>parse_hosts\<close> returns the inline hosts and raises nothing.
\<close>

theorem parse_hosts_both_given_counterexample:
  "hosts both_given \<noteq> None \<and> hostfile both_given \<noteq> None \<and>
   parse_hosts (\<lambda>p. None) both_given = Inr [''a'', ''b'']"
  by (simp add: both_given_def parse_hosts_def split_def)

section \<open>Host resolution from a file\<close>

lemma strip_Nil_iff: "strip s = [] \<longleftrightarrow> blank s"
proof
  assume "blank s"
  then have "dropWhile is_space s = []" by (simp add: blank_def list_all_iff)
  then show "strip s = []" unfolding strip_def by (simp only: rev.simps dropWhile.simps)
next
  assume e: "strip s = []"
  have "dropWhile is_space s = []"
  proof (rule ccontr)
    assume ne: "dropWhile is_space s \<noteq> []"
    then have "\<not> is_space (hd (dropWhile is_space s))" by (rule hd_dropWhile)
    moreover have "hd (dropWhile is_space s) \<in> set (rev (dropWhile is_space s))"
      using ne by simp
    moreover from e have "\<forall>x \<in> set (rev (dropWhile is_space s)). is_space x"
      unfolding strip_def by (simp add: dropWhile_eq_Nil_conv)
    ultimately show False by blast
  qed
  then show "blank s" by (simp add: blank_def list_all_iff)
qed

lemma concat_lines_acc: "concat (lines_acc acc s) = rev acc @ s"
  by (induction acc s rule: lines_acc.induct) auto

lemma concat_file_lines: "concat (file_lines content) = universal_newlines content"
  by (simp add: file_lines_def concat_lines_acc)

lemma lines_acc_nonempty: "l \<in> set (lines_acc acc s) \<Longrightarrow> l \<noteq> []"
  by (induction acc s rule: lines_acc.induct) (auto split: if_splits)

lemma strip_no_break_space: "strip (''h1'' @ [CHR 0xA0, CHR 0x0A]) = ''h1''"
  by (simp add: strip_def is_space_def)

lemma strip_next_line: "strip ([CHR 0x85] @ ''h1'' @ [CHR 0x0A]) = ''h1''"
  by (simp add: strip_def is_space_def)

lemma strip_terminated:
  assumes "b \<noteq> []" "\<not> is_space (hd b)" "\<not> is_space (last b)"
  shows "strip (b @ ''\<newline>'') = b"
proof -
  from assms(1,2) have d: "dropWhile is_space (b @ ''\<newline>'') = b @ ''\<newline>''"
    by (cases b) auto
  have nl: "is_space CHR 0x0A" by (simp add: is_space_def)
  from assms(1,3) have "dropWhile is_space (rev b) = rev b"
    by (cases "rev b") (auto simp: last_rev[symmetric] simp del: last_rev)
  then show ?thesis using d nl by (simp add: strip_def)
qed

text \<open>
  Claim C7, as amended. When only a hostfile path is given and the file can be read,
  \<^verbatim>\<open>parse_hosts\<close> returns one entry for every line of the file, blank lines included, in
  file order, each entry being its line with all leading and trailing whitespace removed
  (for a line that carries no whitespace but its terminator: the line without the
  terminator). The entries that are not empty are those of the non-blank lines, so a file
  with N non-blank lines and B blank lines gives N + B entries, N of them not empty.
\<close>

theorem parse_hosts_hostfile_lines:
  assumes "hosts a = None" and "hostfile a = Some p" and "fs p = Some content"
  shows "\<exists>hs. parse_hosts fs a = Inr hs \<and>
           length hs = length (file_lines content) \<and>
           (\<forall>i < length hs. hs ! i = strip (file_lines content ! i)) \<and>
           (\<forall>i < length hs. \<forall>b. file_lines content ! i = b @ ''\<newline>'' \<and> b \<noteq> [] \<and>
                \<not> is_space (hd b) \<and> \<not> is_space (last b) \<longrightarrow> hs ! i = b) \<and>
           filter (\<lambda>h. h \<noteq> []) hs = map strip (filter (\<lambda>l. \<not> blank l) (file_lines content)) \<and>
           length hs = length (filter (\<lambda>l. \<not> blank l) (file_lines content)) +
                       length (filter blank (file_lines content))"
proof -
  let ?ls = "file_lines content"
  have r: "parse_hosts fs a = Inr (map strip ?ls)"
    using assms by (simp add: parse_hosts_def)
  have f: "filter (\<lambda>h. h \<noteq> []) (map strip ?ls) = map strip (filter (\<lambda>l. \<not> blank l) ?ls)"
    by (simp add: filter_map comp_def strip_Nil_iff)
  have n: "length (map strip ?ls) =
        length (filter (\<lambda>l. \<not> blank l) ?ls) + length (filter blank ?ls)"
    using sum_length_filter_compl[of blank ?ls] by simp
  have t: "\<forall>i < length (map strip ?ls). \<forall>b. ?ls ! i = b @ ''\<newline>'' \<and> b \<noteq> [] \<and>
                \<not> is_space (hd b) \<and> \<not> is_space (last b) \<longrightarrow> map strip ?ls ! i = b"
    by (simp add: strip_terminated)
  show ?thesis
    using r f n t by (intro exI[of _ "map strip ?ls"]) simp
qed

theorem parse_hosts_hostfile_lines_witness:
  "hosts hostfile_only = None \<and> hostfile hostfile_only = Some ''hosts.txt'' \<and>
   blank_line_fs ''hosts.txt'' = Some ''h1\<newline>\<newline> h2\<newline>'' \<and>
   (\<exists>hs. parse_hosts blank_line_fs hostfile_only = Inr hs \<and> length hs = 3 \<and>
      filter (\<lambda>h. h \<noteq> []) hs = [''h1'', ''h2''])"
proof -
  let ?c = "''h1\<newline>\<newline> h2\<newline>''"
  have h: "hosts hostfile_only = None" "hostfile hostfile_only = Some ''hosts.txt''"
    "blank_line_fs ''hosts.txt'' = Some ?c"
    by (simp_all add: hostfile_only_def blank_line_fs_def)
  have l: "file_lines ?c = [''h1\<newline>'', ''\<newline>'', '' h2\<newline>'']"
    by (simp add: file_lines_def)
  have b: "filter (\<lambda>l. \<not> blank l) [''h1\<newline>'', ''\<newline>'', '' h2\<newline>''] = [''h1\<newline>'', '' h2\<newline>'']"
    by (simp add: blank_def is_space_def)
  from parse_hosts_hostfile_lines [of hostfile_only "''hosts.txt''" blank_line_fs ?c, OF h] obtain hs where
    hs: "parse_hosts blank_line_fs hostfile_only = Inr hs"
      "length hs = length (file_lines ?c)"
      "filter (\<lambda>h. h \<noteq> []) hs = map strip (filter (\<lambda>l. \<not> blank l) (file_lines ?c))"
    by blast
  have n: "length hs = 3" using hs(2) l by simp
  have f: "filter (\<lambda>h. h \<noteq> []) hs = [''h1'', ''h2'']"
    using hs(3) l b by (simp add: strip_def is_space_def)
  from h hs(1) n f show ?thesis by blast
qed

text \<open>
  Claim C7 as stated fails: a file of two non-blank lines around a blank one gives three
  entries, the second one empty, and the leading blank of the third line is removed along
  with its terminator.
\<close>

theorem parse_hosts_blank_line_counterexample:
  "file_lines ''h1\<newline>\<newline> h2\<newline>'' = [''h1\<newline>'', ''\<newline>'', '' h2\<newline>''] \<and>
   length (filter (\<lambda>l. \<not> blank l) (file_lines ''h1\<newline>\<newline> h2\<newline>'')) = 2 \<and>
   parse_hosts blank_line_fs hostfile_only = Inr [''h1'', [], ''h2'']"
  by (simp add: hostfile_only_def blank_line_fs_def parse_hosts_def file_lines_def strip_def
      is_space_def blank_def)

section \<open>The run of main\<close>

text \<open>
  The temporary file is opened in binary mode, so the first \<^verbatim>\<open>hostfile.write\<close> of a
  \<^verbatim>\<open>str\<close> raises; with no host to write, reading the unbound name \<^verbatim>\<open>env\<close> raises.
  Either way the block is left by an exception, and the file is deleted.
\<close>

lemma write_hosts_str:
  "write_hosts n hs w = (if hs = [] then Inr () else Inl bytes_required_error, w)"
  by (cases hs) (simp_all add: tmp_write_def)

lemma main_launch_raises:
  "main_launch sys a (hs, m, ex, rest) w =
     (Inl (if hs = [] then env_not_defined_error else bytes_required_error), w)"
  by (simp add: main_launch_def write_hosts_str module_env_def)

lemma with_NamedTemporaryFile_error:
  assumes "with_NamedTemporaryFile sys body w = (Inl e, w')"
  shows "files w' (tmp_name sys) = None \<and>
         (\<exists>w1. body (tmp_create (tmp_name sys) w) = (Inl e, w1) \<and> w' = tmp_delete (tmp_name sys) w1)"
  using assms
  by (auto simp: with_NamedTemporaryFile_def tmp_delete_def split: prod.splits sum.splits)

lemma get_mpirun_cases:
  "get_mpirun sys w =
     (if returncode (run_which sys) \<noteq> 0 then Inl mpirun_error else Inr (Bytes (stdout (run_which sys))),
      w\<lparr>log := log w @ [EvWhich]\<rparr>)"
  by (simp add: get_mpirun_def Let_def)

lemma main_setup_world:
  assumes "main_setup sys a w = (r, w1)"
  shows "(w1 = w \<and> (\<exists>e. r = Inl e)) \<or>
         (w1 = w\<lparr>log := log w @ [EvWhich]\<rparr> \<and>
            (returncode (run_which sys) \<noteq> 0 \<longrightarrow> r = Inl mpirun_error) \<and>
            (\<forall>l. r = Inr l \<longrightarrow> returncode (run_which sys) = 0))"
  using assms
  by (auto simp: main_setup_def get_mpirun_cases split: sum.splits list.splits if_splits)

lemma main_cases:
  assumes "main sys a w = (r, w')"
  shows "(w' = w \<and> (\<exists>e. r = Inl e)) \<or>
         (w' = w\<lparr>log := log w @ [EvWhich]\<rparr> \<and> (\<exists>e. r = Inl e)) \<or>
         (returncode (run_which sys) = 0 \<and> (\<exists>e. r = Inl e) \<and>
          w' = w\<lparr>files := (files w)(tmp_name sys := None),
                 log := log w @ [EvWhich, EvCreate (tmp_name sys), EvDelete (tmp_name sys)]\<rparr>)"
proof (cases "main_setup sys a w")
  case (Pair r1 w1)
  show ?thesis
  proof (cases r1)
    case (Inl e)
    with Pair assms have "r = Inl e" "w' = w1" by (simp_all add: main_def)
    with main_setup_world[OF Pair] Inl show ?thesis by auto
  next
    case (Inr l)
    obtain hs m ex rest where l: "l = (hs, m, ex, rest)" by (cases l) auto
    from main_setup_world[OF Pair] Inr have w1: "w1 = w\<lparr>log := log w @ [EvWhich]\<rparr>"
      and rc: "returncode (run_which sys) = 0" by auto
    from assms Pair Inr l have
      "(r, w') = with_NamedTemporaryFile sys (main_launch sys a (hs, m, ex, rest)) w1"
      by (simp add: main_def)
    then have "(\<exists>e. r = Inl e) \<and> w' = tmp_delete (tmp_name sys) (tmp_create (tmp_name sys) w1)"
      by (simp add: with_NamedTemporaryFile_def main_launch_raises)
    with w1 rc show ?thesis by (simp add: tmp_delete_def tmp_create_def)
  qed
qed

lemma main_raises: "\<exists>e. fst (main sys a w) = Inl e"
  using main_cases[of sys a w "fst (main sys a w)" "snd (main sys a w)"] by auto

lemma split_acc_nonempty: "split_acc sep acc s \<noteq> []"
  by (induction sep acc s rule: split_acc.induct) auto

lemma split_nonempty: "split s sep \<noteq> []"
  by (simp add: split_def split_acc_nonempty)

lemma str_int_4: "str_int 4 = ''4''"
  by code_simp

lemma scenario_setup:
  "main_setup studio (scenario\<lparr>hosts := Some hs, env := es, skip_python_path := b\<rparr>) fresh_disk =
     (Inr (split hs CHR '','', Bytes ''/opt/homebrew/bin/mpirun\<newline>'', ''/usr/local/bin/python3'',
           [''train.py'', ''--epochs'', ''3'']),
      fresh_disk\<lparr>log := [EvWhich]\<rparr>)"
proof -
  have "check_connection (run_ssh studio) xs = Inr ()" for xs
    by (induction xs) (simp_all add: studio_def)
  then show ?thesis
    by (simp add: main_setup_def parse_hosts_def get_mpirun_cases scenario_def)
       (simp add: studio_def fresh_disk_def)
qed

lemma scenario_main:
  "main studio (scenario\<lparr>hosts := Some hs, env := es, skip_python_path := b\<rparr>) fresh_disk =
     (Inl bytes_required_error,
      tmp_delete ''/tmp/tmpk3v9'' (tmp_create ''/tmp/tmpk3v9'' (fresh_disk\<lparr>log := [EvWhich]\<rparr>)))"
proof -
  have "split hs CHR '','' \<noteq> []" by (rule split_nonempty)
  then show ?thesis
    by (simp add: main_def scenario_setup with_NamedTemporaryFile_def main_launch_raises)
       (simp add: studio_def)
qed

lemma mpiargs_of_concat:
  "mpiargs_of es n =
     concat (map (\<lambda>e. [Str ''-x'', e]) es) @ [Str ''--mca'', Str ''btl_tcp_links'', Str (str_int n)]"
proof -
  have "foldl (\<lambda>mpiargs e. mpiargs @ [Str ''-x'', e]) acc es =
          acc @ concat (map (\<lambda>e. [Str ''-x'', e]) es)" for acc
    by (induction es arbitrary: acc) simp_all
  then show ?thesis by (simp add: mpiargs_of_def)
qed

section \<open>Cleanup of the membership file\<close>

text \<open>
  Claim C8. Whenever \<^verbatim>\<open>main\<close> fails after it has created the membership file, the file
  is the temporary file of this run, it no longer exists when \<^verbatim>\<open>main\<close> is left, and its
  deletion follows its creation. This is the \<^verbatim>\<open>with\<close> statement's doing: whatever the
  block does, when it raises, the file is gone and the deletion is the last thing done.
\<close>

theorem failed_launch_removes_hostfile:
  "(main sys a w = (Inl e, w') \<and> EvCreate n \<in> set (log w') \<and> EvCreate n \<notin> set (log w) \<longrightarrow>
      n = tmp_name sys \<and> files w' n = None \<and>
      (\<exists>pre post. log w' = pre @ EvCreate n # post \<and> EvDelete n \<in> set post)) \<and>
   (with_NamedTemporaryFile sys body w = (Inl e, w') \<longrightarrow>
      files w' (tmp_name sys) = None \<and> last (log w') = EvDelete (tmp_name sys))"
proof -
  let ?t = "tmp_name sys"
  have 1: "n = ?t \<and> files w' n = None \<and>
      (\<exists>pre post. log w' = pre @ EvCreate n # post \<and> EvDelete n \<in> set post)"
    if h: "main sys a w = (Inl e, w') \<and> EvCreate n \<in> set (log w') \<and> EvCreate n \<notin> set (log w)"
  proof -
    from h have m: "main sys a w = (Inl e, w')" and c: "EvCreate n \<in> set (log w')"
      and f: "EvCreate n \<notin> set (log w)" by simp_all
    from main_cases[OF m] consider
        (early) "log w' = log w"
      | (which) "log w' = log w @ [EvWhich]"
      | (launch) "w' = w\<lparr>files := (files w)(?t := None),
                          log := log w @ [EvWhich, EvCreate ?t, EvDelete ?t]\<rparr>"
      by auto
    then show ?thesis
    proof cases
      case early
      with c f show ?thesis by simp
    next
      case which
      with c f show ?thesis by simp
    next
      case launch
      then have l: "log w' = log w @ [EvWhich, EvCreate ?t, EvDelete ?t]"
        and d: "files w' ?t = None" by simp_all
      from l c f have n: "n = ?t" by simp
      from l n have "log w' = (log w @ [EvWhich]) @ EvCreate n # [EvDelete n]" by simp
      then have "\<exists>pre post. log w' = pre @ EvCreate n # post \<and> EvDelete n \<in> set post"
        by (intro exI[of _ "log w @ [EvWhich]"] exI[of _ "[EvDelete n]"]) simp
      with n d show ?thesis by simp
    qed
  qed
  have 2: "files w' ?t = None \<and> last (log w') = EvDelete ?t"
    if "with_NamedTemporaryFile sys body w = (Inl e, w')"
  proof -
    from with_NamedTemporaryFile_error[OF that] obtain w1
      where "files w' ?t = None" and "w' = tmp_delete ?t w1" by blast
    then show ?thesis by (simp add: tmp_delete_def)
  qed
  show ?thesis
  proof (rule conjI; rule impI)
    assume "main sys a w = (Inl e, w') \<and> EvCreate n \<in> set (log w') \<and> EvCreate n \<notin> set (log w)"
    then show "n = ?t \<and> files w' n = None \<and>
      (\<exists>pre post. log w' = pre @ EvCreate n # post \<and> EvDelete n \<in> set post)" by (rule 1)
  next
    assume "with_NamedTemporaryFile sys body w = (Inl e, w')"
    then show "files w' ?t = None \<and> last (log w') = EvDelete ?t" by (rule 2)
  qed
qed

theorem failed_launch_removes_hostfile_witness:
  "fst (main studio scenario fresh_disk) = Inl bytes_required_error \<and>
   log (snd (main studio scenario fresh_disk)) =
     [EvWhich, EvCreate ''/tmp/tmpk3v9'', EvDelete ''/tmp/tmpk3v9''] \<and>
   EvCreate ''/tmp/tmpk3v9'' \<notin> set (log fresh_disk) \<and>
   files (snd (main studio scenario fresh_disk)) ''/tmp/tmpk3v9'' = None"
proof -
  define w' where "w' = snd (main studio scenario fresh_disk)"
  have m: "main studio scenario fresh_disk =
      (Inl bytes_required_error,
       tmp_delete ''/tmp/tmpk3v9'' (tmp_create ''/tmp/tmpk3v9'' (fresh_disk\<lparr>log := [EvWhich]\<rparr>)))"
    using scenario_main[where hs = "''m1,m2''" and es = "[]" and b = False] by (simp add: scenario_def)
  have r: "fst (main studio scenario fresh_disk) = Inl bytes_required_error" by (simp add: m)
  have h: "main studio scenario fresh_disk = (Inl bytes_required_error, w')"
    unfolding w'_def by (simp add: m)
  have l: "log w' = [EvWhich, EvCreate ''/tmp/tmpk3v9'', EvDelete ''/tmp/tmpk3v9'']"
    unfolding w'_def by (simp add: m tmp_delete_def tmp_create_def)
  then have c: "EvCreate ''/tmp/tmpk3v9'' \<in> set (log w')" by simp
  have f: "EvCreate ''/tmp/tmpk3v9'' \<notin> set (log fresh_disk)" by (simp add: fresh_disk_def)
  from failed_launch_removes_hostfile [of studio scenario fresh_disk bytes_required_error
      w' "''/tmp/tmpk3v9''"] h c f
  have "files w' ''/tmp/tmpk3v9'' = None" by blast
  with r l f show ?thesis unfolding w'_def by blast
qed

section \<open>The launcher is looked up before the membership file is made\<close>

text \<open>
  Claim C9. In every run of \<^verbatim>\<open>main\<close>: when \<^verbatim>\<open>which mpirun\<close> fails, the run ends in an
  error, the files on disk are unchanged, and no temporary file is ever created or
  written; when host resolution and the reachability check pass, that error is the
  launcher-not-found error. Whenever a temporary file is created, the lookup of the
  launcher has happened before, and has succeeded.
\<close>

theorem mpirun_located_before_hostfile:
  assumes "main sys a w = (r, w')" and "log w = []"
  shows "(returncode (run_which sys) \<noteq> 0 \<longrightarrow>
            (\<exists>e. r = Inl e) \<and> files w' = files w \<and>
            (\<forall>n. EvCreate n \<notin> set (log w')) \<and> (\<forall>n d. EvWrite n d \<notin> set (log w'))) \<and>
         (returncode (run_which sys) \<noteq> 0 \<and>
            (\<exists>hs. parse_hosts (files w) a = Inr hs \<and>
                   (skip_ssh_check a \<or> check_connection (run_ssh sys) hs = Inr ())) \<longrightarrow>
            r = Inl mpirun_error \<and> log w' = [EvWhich]) \<and>
         (\<forall>n. EvCreate n \<in> set (log w') \<longrightarrow>
            returncode (run_which sys) = 0 \<and> (\<exists>post. log w' = EvWhich # EvCreate n # post))"
proof -
  have 1: "(\<exists>e. r = Inl e) \<and> files w' = files w \<and>
            (\<forall>n. EvCreate n \<notin> set (log w')) \<and> (\<forall>n d. EvWrite n d \<notin> set (log w'))"
    if rc: "returncode (run_which sys) \<noteq> 0"
    using main_cases[OF assms(1)] rc assms(2) by auto
  have 2: "r = Inl mpirun_error \<and> log w' = [EvWhich]"
    if h: "returncode (run_which sys) \<noteq> 0 \<and>
            (\<exists>hs. parse_hosts (files w) a = Inr hs \<and>
                   (skip_ssh_check a \<or> check_connection (run_ssh sys) hs = Inr ()))"
  proof -
    from h have "main_setup sys a w = (Inl mpirun_error, w\<lparr>log := log w @ [EvWhich]\<rparr>)"
      by (auto simp: main_setup_def get_mpirun_cases)
    with assms show ?thesis by (auto simp: main_def)
  qed
  have 3: "returncode (run_which sys) = 0 \<and> (\<exists>post. log w' = EvWhich # EvCreate n # post)"
    if "EvCreate n \<in> set (log w')" for n
    using main_cases[OF assms(1)] assms(2) that by auto
  from 1 2 3 show ?thesis by blast
qed

theorem mpirun_located_before_hostfile_witness:
  "returncode (run_which no_mpi) \<noteq> 0 \<and> log fresh_disk = [] \<and>
   parse_hosts (files fresh_disk) scenario = Inr [''m1'', ''m2''] \<and>
   check_connection (run_ssh no_mpi) [''m1'', ''m2''] = Inr () \<and>
   fst (main no_mpi scenario fresh_disk) = Inl mpirun_error \<and>
   log (snd (main no_mpi scenario fresh_disk)) = [EvWhich]"
proof -
  have a: "returncode (run_which no_mpi) \<noteq> 0" "log fresh_disk = []"
    by (simp_all add: no_mpi_def studio_def fresh_disk_def)
  have p: "parse_hosts (files fresh_disk) scenario = Inr [''m1'', ''m2'']"
    by (simp add: parse_hosts_def scenario_def split_def)
  have c: "check_connection (run_ssh no_mpi) [''m1'', ''m2''] = Inr ()"
    by (simp add: no_mpi_def studio_def)
  from mpirun_located_before_hostfile [of no_mpi scenario fresh_disk
      "fst (main no_mpi scenario fresh_disk)" "snd (main no_mpi scenario fresh_disk)"] a p c
  show ?thesis by simp
qed

section \<open>The launcher path\<close>




section \<open>Where the code departs from its description\<close>

text \<open>
  Claim C1. \<^verbatim>\<open>main\<close> never reads \<^verbatim>\<open>args.skip_python_path\<close>: with the flag set and the
  command \<^verbatim>\<open>python train.py --epochs 3\<close>, the executable is still replaced by
  \<^verbatim>\<open>sys.executable\<close>, and the flag changes nothing in any run.
\<close>

theorem skip_python_path_is_ignored:
  "skip_python_path skip_python = True \<and>
   hd (cmd skip_python) = ''python'' \<and>
   fst (main_setup studio skip_python fresh_disk) =
     Inr ([''m1'', ''m2''], Bytes ''/opt/homebrew/bin/mpirun\<newline>'', ''/usr/local/bin/python3'',
          [''train.py'', ''--epochs'', ''3'']) \<and>
   main_setup sys (a\<lparr>skip_python_path := True\<rparr>) w = main_setup sys (a\<lparr>skip_python_path := False\<rparr>) w \<and>
   main sys (a\<lparr>skip_python_path := True\<rparr>) w = main sys (a\<lparr>skip_python_path := False\<rparr>) w"
proof -
  have s: "main_setup sys (a\<lparr>skip_python_path := b\<rparr>) w = main_setup sys a w" for b
    by (simp add: main_setup_def parse_hosts_def
        cong: option.case_cong sum.case_cong list.case_cong prod.case_cong if_cong)
  have l: "main_launch sys (a\<lparr>skip_python_path := b\<rparr>) l = main_launch sys a l" for b l
    by (cases l) (simp add: main_launch_raises fun_eq_iff)
  have m: "main sys (a\<lparr>skip_python_path := b\<rparr>) w = main sys a w" for b
    by (simp add: main_def s l split: prod.splits sum.splits)
  have e: "fst (main_setup studio skip_python fresh_disk) =
     Inr ([''m1'', ''m2''], Bytes ''/opt/homebrew/bin/mpirun\<newline>'', ''/usr/local/bin/python3'',
          [''train.py'', ''--epochs'', ''3''])"
    using scenario_setup[where hs = "''m1,m2''" and es = "[]" and b = True]
    by (simp add: skip_python_def scenario_def split_def)
  show ?thesis using s m e by (simp add: skip_python_def scenario_def)
qed

text \<open>
  Claim C2. The entries of \<^verbatim>\<open>--env\<close> never reach the launcher: \<^verbatim>\<open>main\<close> reads the
  unbound name \<^verbatim>\<open>env\<close>, not \<^verbatim>\<open>args.env\<close>. With hosts given, the run has already failed
  at the first write to the membership file; with an empty hostfile it fails with
  \<^verbatim>\<open>NameError\<close>. The parsed entries change nothing in any run, and every run of
  \<^verbatim>\<open>main\<close> ends in an error.
\<close>

theorem env_entries_never_reach_mpirun:
  "env with_env = [''MY_ENV_VAR=1'', ''OTHER=2''] \<and>
   fst (main studio with_env fresh_disk) = Inl bytes_required_error \<and>
   fst (main studio empty_hostfile fresh_disk) = Inl env_not_defined_error \<and>
   main sys (a\<lparr>env := es\<rparr>) w = main sys a w \<and>
   (\<exists>e. fst (main sys a w) = Inl e)"
proof -
  have s: "main_setup sys (a\<lparr>env := es\<rparr>) w = main_setup sys a w"
    by (simp add: main_setup_def parse_hosts_def
        cong: option.case_cong sum.case_cong list.case_cong prod.case_cong if_cong)
  have l: "main_launch sys (a\<lparr>env := es\<rparr>) l = main_launch sys a l" for l
    by (cases l) (simp add: main_launch_raises fun_eq_iff)
  have m: "main sys (a\<lparr>env := es\<rparr>) w = main sys a w"
    by (simp add: main_def s l split: prod.splits sum.splits)
  have 1: "fst (main studio with_env fresh_disk) = Inl bytes_required_error"
    using scenario_main[where hs = "''m1,m2''" and es = "[''MY_ENV_VAR=1'', ''OTHER=2'']" and b = False]
    by (simp add: with_env_def scenario_def)
  have p: "parse_hosts (files fresh_disk) empty_hostfile = Inr []"
    by (simp add: parse_hosts_def empty_hostfile_def with_env_def scenario_def fresh_disk_def
        file_lines_def)
  have "main_setup studio empty_hostfile fresh_disk =
      (Inr ([], Bytes ''/opt/homebrew/bin/mpirun\<newline>'', ''/usr/local/bin/python3'',
            [''train.py'', ''--epochs'', ''3'']), fresh_disk\<lparr>log := [EvWhich]\<rparr>)"
    by (simp add: main_setup_def p get_mpirun_cases)
       (simp add: studio_def empty_hostfile_def with_env_def scenario_def fresh_disk_def)
  then have 2: "fst (main studio empty_hostfile fresh_disk) = Inl env_not_defined_error"
    by (simp add: main_def with_NamedTemporaryFile_def main_launch_raises)
  have 3: "env with_env = [''MY_ENV_VAR=1'', ''OTHER=2'']" by (simp add: with_env_def)
  from 1 2 3 m main_raises[of sys a w] show ?thesis by simp
qed

text \<open>
  Claim C5. For the hosts \<^verbatim>\<open>h1,h2\<close> no line is written: the first
  \<^verbatim>\<open>hostfile.write\<close> raises \<^verbatim>\<open>TypeError\<close>, the file is created and deleted without a
  write in between, and so it is for every non-empty host list.
\<close>

theorem hostfile_write_raises:
  "fst (main studio two_hosts fresh_disk) = Inl bytes_required_error \<and>
   log (snd (main studio two_hosts fresh_disk)) =
     [EvWhich, EvCreate ''/tmp/tmpk3v9'', EvDelete ''/tmp/tmpk3v9''] \<and>
   files (snd (main studio two_hosts fresh_disk)) ''/tmp/tmpk3v9'' = None \<and>
   write_hosts n (h # hs) w = (Inl bytes_required_error, w) \<and>
   tmp_write n (Str (host_line h)) w = (Inl bytes_required_error, w)"
proof -
  have m: "main studio two_hosts fresh_disk =
      (Inl bytes_required_error,
       tmp_delete ''/tmp/tmpk3v9'' (tmp_create ''/tmp/tmpk3v9'' (fresh_disk\<lparr>log := [EvWhich]\<rparr>)))"
    using scenario_main[where hs = "''h1,h2''" and es = "[]" and b = False]
    by (simp add: two_hosts_def scenario_def)
  show ?thesis
    by (simp add: m tmp_delete_def tmp_create_def write_hosts_str tmp_write_def)
qed

text \<open>
  Claim C6. In the scenario of the claim \<^verbatim>\<open>main\<close> fails before any argument vector is
  built. The list \<^verbatim>\<open>run_args\<close> of lines 126 to 134 would be as the claim says, with the
  launcher path first; but joining it for the message raises \<^verbatim>\<open>TypeError\<close> on that
  \<^verbatim>\<open>bytes\<close> item, and \<^verbatim>\<open>os.execv(run_args.pop(0), run_args)\<close> hands over the list
  without its first item, so that argument 0 would be \<^verbatim>\<open>--mca\<close>.
\<close>

theorem execv_argument_vector:
  "fst (main studio scenario fresh_disk) = Inl bytes_required_error \<and>
   scenario_run_args =
     [Bytes ''/opt/homebrew/bin/mpirun\<newline>'', Str ''--mca'', Str ''btl_tcp_links'', Str ''4'',
      Str ''--hostfile'', Str ''/tmp/tmpk3v9'', Str ''--'', Str ''/usr/local/bin/python3'',
      Str ''train.py'', Str ''--epochs'', Str ''3''] \<and>
   join scenario_run_args = Inl (join_bytes_error 0) \<and>
   os_execv studio scenario_run_args =
     Inr (Execv (Bytes ''/opt/homebrew/bin/mpirun\<newline>'')
            [Str ''--mca'', Str ''btl_tcp_links'', Str ''4'',
             Str ''--hostfile'', Str ''/tmp/tmpk3v9'', Str ''--'', Str ''/usr/local/bin/python3'',
             Str ''train.py'', Str ''--epochs'', Str ''3''])"
proof -
  have m: "fst (main studio scenario fresh_disk) = Inl bytes_required_error"
    using scenario_main[where hs = "''m1,m2''" and es = "[]" and b = False]
    by (simp add: scenario_def)
  have r: "scenario_run_args =
     [Bytes ''/opt/homebrew/bin/mpirun\<newline>'', Str ''--mca'', Str ''btl_tcp_links'', Str ''4'',
      Str ''--hostfile'', Str ''/tmp/tmpk3v9'', Str ''--'', Str ''/usr/local/bin/python3'',
      Str ''train.py'', Str ''--epochs'', Str ''3'']"
    by (simp add: scenario_run_args_def run_args_of_def mpiargs_of_def str_int_4)
  show ?thesis
    by (simp add: m) (simp add: r join_def os_execv_def studio_def)
qed

end
